theory Spec2Isabelle
  imports Main "HOL-Library.Sublist"
begin

section \<open>Proxy orchestrator: ordered account failover (proxy.ts, handleProxy)\<close>

text \<open>
  The errors \<open>handleProxy\<close> documents in its \<open>@throws\<close> lines. The second argument of
  \<open>ServiceUnavailableError\<close> is the provider name.
\<close>

datatype proxy_error =
    ValidationError string
  | ServiceUnavailableError string string
  | ProviderError string










section \<open>JavaScript string operations used by the interceptors\<close>

text \<open>
  Strings are lists of \<^typ>\<open>char\<close>; a character stands for one code unit in the Latin-1
  range. \<open>s.indexOf(t)\<close> is the position of the leftmost occurrence of \<open>t\<close> in \<open>s\<close>,
  with \<open>None\<close> for \<open>-1\<close>; \<open>s.includes(t)\<close> tests for an occurrence.
\<close>

fun indexOf :: "string \<Rightarrow> string \<Rightarrow> nat option" where
  "indexOf [] t = (if t = [] then Some 0 else None)"
| "indexOf (c # s) t = (if prefix t (c # s) then Some 0 else map_option Suc (indexOf s t))"

definition includesStr :: "string \<Rightarrow> string \<Rightarrow> bool" where
  "includesStr s t = (indexOf s t \<noteq> None)"

lemma indexOf_bound: "indexOf s t = Some i \<Longrightarrow> i + length t \<le> length s"
proof (induction s arbitrary: i)
  case Nil
  then show ?case by (simp split: if_splits)
next
  case (Cons c s)
  then show ?case by (auto split: if_splits dest: prefix_length_le)
qed

text \<open>\<open>xs.join(sep)\<close> on an array of strings.\<close>

fun join :: "string \<Rightarrow> string list \<Rightarrow> string" where
  "join sep [] = []"
| "join sep [x] = x"
| "join sep (x # y # ys) = x @ sep @ join sep (y # ys)"

text \<open>
  \<open>s.trim()\<close> strips white space and line terminators from both ends: in the Latin-1
  range the characters TAB, LF, VT, FF, CR, SP and NBSP.
\<close>

definition isWhiteSpace :: "char \<Rightarrow> bool" where
  "isWhiteSpace c = (of_char c \<in> {9, 10, 11, 12, 13, 32, 160 :: nat})"

definition trim :: "string \<Rightarrow> string" where
  "trim s = rev (dropWhile isWhiteSpace (rev (dropWhile isWhiteSpace s)))"

text \<open>
  \<open>text.match(/<env>([\s\S]*?)<\/env>/g) || []\<close>: every match of the lazy pattern, from
  left to right. A match starts at the leftmost \<open><env>\<close> at or after the end of the
  previous match and ends with the nearest \<open></env>\<close> behind it; when no \<open></env>\<close>
  follows, no later start can match either.
\<close>

function matchEnvBlocks :: "string \<Rightarrow> string list" where
  "matchEnvBlocks s =
     (case indexOf s ''<env>'' of
        None \<Rightarrow> []
      | Some i \<Rightarrow>
          (let rest = drop (i + 5) s in
           case indexOf rest ''</env>'' of
             None \<Rightarrow> []
           | Some j \<Rightarrow> (''<env>'' @ take j rest @ ''</env>'') # matchEnvBlocks (drop (j + 6) rest)))"
  by pat_completeness auto
termination
proof (relation "measure length", goal_cases)
  case 1
  then show ?case by simp
next
  case (2 s i rest j)
  then show ?case using indexOf_bound[of s "''<env>''" i] by simp
qed

declare matchEnvBlocks.simps [simp del]


text \<open>
  \<open>str.replace(/literal/g, replacement)\<close> with a string as replacement. The replacement
  is a template: for each match the engine expands \<open>$$\<close> to a dollar sign, \<open>$&\<close> to the
  matched text, \<open>$`\<close> to the part of \<open>str\<close> before the match and \<open>$'\<close> to the part
  behind it. The patterns here have no capture groups, so \<open>$1\<close>..\<open>$99\<close> and \<open>$<\<close> stay
  as they are, as does any other use of the dollar sign.
\<close>

fun getSubstitution :: "string \<Rightarrow> string \<Rightarrow> string \<Rightarrow> string \<Rightarrow> string" where
  "getSubstitution matched pre post [] = []"
| "getSubstitution matched pre post [c] = [c]"
| "getSubstitution matched pre post (c # d # rest) =
     (if c = CHR ''$'' then
        (if d = CHR ''$'' then CHR ''$'' # getSubstitution matched pre post rest
         else if d = CHR ''&'' then matched @ getSubstitution matched pre post rest
         else if d = CHR ''`'' then pre @ getSubstitution matched pre post rest
         else if d = CHR 0x27 then post @ getSubstitution matched pre post rest
         else c # getSubstitution matched pre post (d # rest))
      else c # getSubstitution matched pre post (d # rest))"

text \<open>
  The matches of a literal pattern are found from left to right without overlap, each
  search starting where the previous match ended; \<open>pos\<close> is that position in \<open>str\<close>.
  Both patterns of the source, \<open>{{env_block}}\<close> and \<open>{{git_status_block}}\<close>, are non-empty;
  for an empty pattern the function returns the rest of the string.
\<close>

function replaceFrom :: "string \<Rightarrow> string \<Rightarrow> string \<Rightarrow> nat \<Rightarrow> string" where
  "replaceFrom pat replacement str pos =
     (if pat = [] then drop pos str
      else
        (case indexOf (drop pos str) pat of
           None \<Rightarrow> drop pos str
         | Some i \<Rightarrow>
             take i (drop pos str)
             @ getSubstitution pat (take (pos + i) str) (drop (pos + i + length pat) str) replacement
             @ replaceFrom pat replacement str (pos + i + length pat)))"
  by pat_completeness auto
termination
proof (relation "measure (\<lambda>(pat, replacement, str, pos). length str - pos)", goal_cases)
  case 1
  then show ?case by simp
next
  case (2 pat replacement str pos i)
  from 2(2) have "i + length pat \<le> length str - pos"
    using indexOf_bound[of "drop pos str" pat i] by simp
  moreover from 2(1) have "0 < length pat" by simp
  ultimately show ?case by (simp, arith)
qed

declare replaceFrom.simps [simp del]

definition replaceAll :: "string \<Rightarrow> string \<Rightarrow> string \<Rightarrow> string" where
  "replaceAll str pat replacement = replaceFrom pat replacement str 0"

text \<open>
  The same scan with the value inserted as it is: what a substitution of the token by a
  given text means.
\<close>

function substituteFrom :: "string \<Rightarrow> string \<Rightarrow> string \<Rightarrow> nat \<Rightarrow> string" where
  "substituteFrom pat v str pos =
     (if pat = [] then drop pos str
      else
        (case indexOf (drop pos str) pat of
           None \<Rightarrow> drop pos str
         | Some i \<Rightarrow> take i (drop pos str) @ v @ substituteFrom pat v str (pos + i + length pat)))"
  by pat_completeness auto
termination
proof (relation "measure (\<lambda>(pat, v, str, pos). length str - pos)", goal_cases)
  case 1
  then show ?case by simp
next
  case (2 pat v str pos i)
  from 2(2) have "i + length pat \<le> length str - pos"
    using indexOf_bound[of "drop pos str" pat i] by simp
  moreover from 2(1) have "0 < length pat" by simp
  ultimately show ?case by (simp, arith)
qed

declare substituteFrom.simps [simp del]

definition substituteEvery :: "string \<Rightarrow> string \<Rightarrow> string \<Rightarrow> string" where
  "substituteEvery str token v = substituteFrom token v str 0"


section \<open>Request bodies, configuration and the key-value store\<close>

text \<open>
  The interfaces the interceptors declare for a decoded request body. Optional fields
  are options; a field that holds a string or an array is a datatype with one
  constructor for each. The record is extensible: its \<open>more\<close> part stands for every
  top-level field of the JSON object that the interfaces do not name.
\<close>

record SystemMessage =
  sm_type :: string
  sm_text :: string
  cache_control :: "string option"

record Tool =
  tool_type :: string
  tool_name :: string
  description :: "string option"
  input_schema :: "string option"

record MessageContent =
  mc_type :: "string option"
  mc_text :: "string option"

datatype content_field = ContentString string | ContentBlocks "MessageContent list"

record Message =
  role :: "string option"
  content :: "content_field option"

datatype system_field = SystemString string | SystemBlocks "SystemMessage list"

record RequestBody =
  messages :: "Message list option"
  model :: "string option"
  system :: "system_field option"
  tools :: "Tool list option"

text \<open>
  A stored interceptor configuration is the object that \<open>JSON.parse(row.config)\<close>
  returns; the interceptors read its fields by name, so it is a map from field names to
  values. A field that is absent reads as \<open>undefined\<close> (\<open>None\<close>).
\<close>

datatype cfg_value = CfgNull | CfgBool bool | CfgNumber int | CfgString string | CfgObject

text \<open>The truthiness that \<open>!x\<close> tests.\<close>

fun truthy :: "cfg_value option \<Rightarrow> bool" where
  "truthy None = False"
| "truthy (Some CfgNull) = False"
| "truthy (Some (CfgBool b)) = b"
| "truthy (Some (CfgNumber n)) = (n \<noteq> 0)"
| "truthy (Some (CfgString s)) = (s \<noteq> [])"
| "truthy (Some CfgObject) = True"

text \<open>The declared shape of a configuration (\<open>InterceptorConfig\<close> of the repository).\<close>

record InterceptorConfig =
  targetPrompt :: string
  replacementPrompt :: string
  toolsEnabled :: bool

text \<open>\<open>JSON.stringify(config)\<close> followed by \<open>JSON.parse\<close>: the fields of the stored object.\<close>

definition configFields :: "InterceptorConfig \<Rightarrow> (string \<rightharpoonup> cfg_value)" where
  "configFields c =
     [''targetPrompt'' \<mapsto> CfgString (targetPrompt c),
      ''replacementPrompt'' \<mapsto> CfgString (replacementPrompt c),
      ''toolsEnabled'' \<mapsto> CfgBool (toolsEnabled c)]"

record InterceptorRow =
  is_enabled :: int
  row_config :: "string \<rightharpoonup> cfg_value"

record StoredInterceptor =
  isEnabled :: bool
  config :: "string \<rightharpoonup> cfg_value"

text \<open>
  The database as the interceptors use it: the table \<open>interceptors\<close> keyed by id, the
  table \<open>system_kv_store\<close> keyed by key, and the list of the \<open>setSystemKV\<close> calls made
  so far, oldest first. A call is recorded with its key and its value argument; the
  argument is \<open>None\<close> when the caller passed \<open>undefined\<close>.
\<close>

record Db =
  interceptors :: "string \<rightharpoonup> InterceptorRow"
  system_kv_store :: "string \<rightharpoonup> string"
  setSystemKV_calls :: "(string \<times> string option) list"

text \<open>\<open>InterceptorRepository.getConfig\<close> and \<open>setConfig\<close>.\<close>

definition getInterceptorConfig :: "Db \<Rightarrow> string \<Rightarrow> StoredInterceptor option" where
  "getInterceptorConfig db ident =
     (case interceptors db ident of
        None \<Rightarrow> None
      | Some row \<Rightarrow> Some \<lparr>isEnabled = (is_enabled row = 1), config = row_config row\<rparr>)"

definition setInterceptorConfig :: "string \<Rightarrow> bool \<Rightarrow> InterceptorConfig \<Rightarrow> Db \<Rightarrow> Db" where
  "setInterceptorConfig ident enabled c db =
     db\<lparr>interceptors := (interceptors db)
           (ident \<mapsto> \<lparr>is_enabled = (if enabled then 1 else 0), row_config = configFields c\<rparr>)\<rparr>"

text \<open>\<open>SystemKVRepository.getValue\<close> (\<open>row?.value ?? null\<close>) and \<open>setValue\<close>.\<close>

definition getSystemKV :: "Db \<Rightarrow> string \<Rightarrow> string option" where
  "getSystemKV db key = system_kv_store db key"

definition setSystemKV :: "string \<Rightarrow> string \<Rightarrow> Db \<Rightarrow> Db" where
  "setSystemKV key v db =
     db\<lparr>system_kv_store := (system_kv_store db)(key \<mapsto> v),
        setSystemKV_calls := setSystemKV_calls db @ [(key, Some v)]\<rparr>"

text \<open>
  The same call with \<open>undefined\<close> as the value, which the signature of \<open>setValue\<close>
  excludes and the tools callback makes all the same. What \<open>INSERT OR REPLACE\<close> does with
  a value that is not a string is decided by the statement runner of the base
  repository, which is not among the sources: it may store a null, which \<open>getValue\<close>
  reads as \<open>null\<close>, or throw and leave the table as it is. \<open>writeUndefined\<close> is that effect
  on the table, any function of the key and the table.
\<close>

definition setSystemKV_undefined ::
  "(string \<Rightarrow> (string \<rightharpoonup> string) \<Rightarrow> (string \<rightharpoonup> string)) \<Rightarrow> string \<Rightarrow> Db \<Rightarrow> Db" where
  "setSystemKV_undefined writeUndefined key db =
     db\<lparr>system_kv_store := writeUndefined key (system_kv_store db),
        setSystemKV_calls := setSystemKV_calls db @ [(key, None)]\<rparr>"

text \<open>
  The two deferred updates. Each compares the new value with the stored one and writes
  only when they differ. \<open>JSON.stringify\<close> on a list of tools is a parameter.

  \<open>_updateLastSeenTools\<close> is declared for an array of tools, but its caller passes
  \<open>requestBody.tools as Tool[]\<close>, which is \<open>undefined\<close> (\<open>None\<close>) once the field has been
  deleted. Then \<open>JSON.stringify(undefined)\<close> is \<open>undefined\<close>, which is not identical to any
  stored string nor to \<open>null\<close>, so \<open>setSystemKV\<close> is called with \<open>undefined\<close>; the log line
  behind it reads \<open>tools.length\<close>, throws, and the \<open>catch\<close> of the function logs the error.
\<close>

definition updateLastSeenPrompt :: "string \<Rightarrow> Db \<Rightarrow> Db" where
  "updateLastSeenPrompt prompt db =
     (let lastSeen = getSystemKV db ''last_seen_system_prompt'' in
      if Some prompt \<noteq> lastSeen then setSystemKV ''last_seen_system_prompt'' prompt db
      else db)"

definition updateLastSeenTools ::
  "(Tool list \<Rightarrow> string) \<Rightarrow> (string \<Rightarrow> (string \<rightharpoonup> string) \<Rightarrow> (string \<rightharpoonup> string))
    \<Rightarrow> Tool list option \<Rightarrow> Db \<Rightarrow> Db" where
  "updateLastSeenTools stringifyTools writeUndefined passed db =
     (case passed of
        Some ts \<Rightarrow>
          (let toolsJson = stringifyTools ts;
               lastSeen = getSystemKV db ''last_seen_tools'' in
           if Some toolsJson \<noteq> lastSeen then setSystemKV ''last_seen_tools'' toolsJson db
           else db)
      | None \<Rightarrow> setSystemKV_undefined writeUndefined ''last_seen_tools'' db)"

text \<open>
  A callback handed to \<open>setImmediate\<close>. The tools callback reads \<open>requestBody.tools\<close>
  when it runs, after the interceptor has returned, so it carries the field as the
  interceptor left it.
\<close>

datatype deferred = UpdateLastSeenTools "Tool list option" | UpdateLastSeenPrompt string

text \<open>
  Running a callback, and running the scheduled callbacks in the order in which they
  were handed to \<open>setImmediate\<close>.
\<close>

fun runDeferred ::
  "(Tool list \<Rightarrow> string) \<Rightarrow> (string \<Rightarrow> (string \<rightharpoonup> string) \<Rightarrow> (string \<rightharpoonup> string))
    \<Rightarrow> deferred \<Rightarrow> Db \<Rightarrow> Db" where
  "runDeferred stringifyTools writeUndefined (UpdateLastSeenTools passed) db =
     updateLastSeenTools stringifyTools writeUndefined passed db"
| "runDeferred stringifyTools writeUndefined (UpdateLastSeenPrompt prompt) db =
     updateLastSeenPrompt prompt db"

fun runAllDeferred ::
  "(Tool list \<Rightarrow> string) \<Rightarrow> (string \<Rightarrow> (string \<rightharpoonup> string) \<Rightarrow> (string \<rightharpoonup> string))
    \<Rightarrow> deferred list \<Rightarrow> Db \<Rightarrow> Db" where
  "runAllDeferred stringifyTools writeUndefined [] db = db"
| "runAllDeferred stringifyTools writeUndefined (callback # callbacks) db =
     runAllDeferred stringifyTools writeUndefined callbacks
       (runDeferred stringifyTools writeUndefined callback db)"


section \<open>System-prompt interceptor (handlers/system-prompt-interceptor.ts)\<close>

definition mainAgentSignature :: string where
  "mainAgentSignature = ''You are Claude Code, Anthropic's official CLI for Claude.''"

definition subAgentSignature :: string where
  "subAgentSignature = ''You are an agent for Claude Code''"

text \<open>
  The env block: no match gives the empty string, one match is taken as it is, several
  are joined with a newline.
\<close>

definition extractEnvBlock :: "string \<Rightarrow> string" where
  "extractEnvBlock t =
     (let envBlocks = matchEnvBlocks t in
      if length envBlocks = 0 then []
      else if length envBlocks = 1 then envBlocks ! 0
      else join ''\<newline>'' envBlocks)"

text \<open>The git status block: from the first \<open>gitStatus:\<close> to the end of the text.\<close>

definition extractGitStatusBlock :: "string \<Rightarrow> string" where
  "extractGitStatusBlock t =
     (case indexOf t ''gitStatus:'' of None \<Rightarrow> [] | Some gitStatusIndex \<Rightarrow> drop gitStatusIndex t)"

text \<open>
  \<^verbatim>\<open>let newPrompt = replacementPrompt.replace(/\{\{env_block\}\}/g, envBlock);\<close>
  \<^verbatim>\<open>newPrompt = newPrompt.replace(/\{\{git_status_block\}\}/g, gitStatusBlock);\<close>
\<close>

definition applyTemplate :: "string \<Rightarrow> string \<Rightarrow> string \<Rightarrow> string" where
  "applyTemplate template envBlock gitStatusBlock =
     replaceAll (replaceAll template ''{{env_block}}'' envBlock) ''{{git_status_block}}'' gitStatusBlock"

text \<open>\<open>secondSystemMessage.text = newPrompt\<close>, an assignment inside \<open>requestBody.system\<close>.\<close>

definition setSecondText :: "SystemMessage list \<Rightarrow> string \<Rightarrow> SystemMessage list" where
  "setSecondText blocks newPrompt = blocks[1 := (blocks ! 1)\<lparr>sm_text := newPrompt\<rparr>]"

text \<open>
  \<open>applySystemPromptInterception(requestBodyBuffer, dbOps)\<close>. \<open>decode\<close> is
  \<open>JSON.parse(new TextDecoder().decode(buffer)) as RequestBody\<close>, with \<open>None\<close> for a
  buffer that makes the \<open>try\<close> block throw before it reads a field (text that is not
  JSON, or the value \<open>null\<close>): the \<open>catch\<close> returns \<open>null\<close>. \<open>encode\<close> is
  \<open>JSON.stringify\<close> followed by the text encoder. The first component of the result is the returned buffer (\<open>None\<close> for
  \<open>null\<close>), the second the callbacks handed to \<open>setImmediate\<close>, in order.
  \<open>isSystemMessageWithText\<close> holds of every element of a typed system array and fails on
  \<open>undefined\<close>, that is, on an index beyond the array.
\<close>

definition applySystemPromptInterception ::
  "('buf \<Rightarrow> 'x RequestBody_scheme option) \<Rightarrow> ('x RequestBody_scheme \<Rightarrow> 'buf) \<Rightarrow> Db
    \<Rightarrow> 'buf option \<Rightarrow> 'buf option \<times> deferred list" where
  "applySystemPromptInterception decode encode db requestBodyBuffer =
     (case requestBodyBuffer of
        None \<Rightarrow> (None, [])
      | Some buf \<Rightarrow>
     (case decode buf of
        None \<Rightarrow> (None, [])
      | Some requestBody \<Rightarrow>
     (case getInterceptorConfig db ''system_prompt'' of
        None \<Rightarrow> (None, [])
      | Some interceptorConfig \<Rightarrow>
     if \<not> isEnabled interceptorConfig then (None, [])
     else
     (case system requestBody of
        None \<Rightarrow> (None, [])
      | Some (SystemString s) \<Rightarrow> (None, [])
      | Some (SystemBlocks blocks) \<Rightarrow>
     if length blocks < 1 then (None, [])
     else
       let firstSystemText = sm_text (blocks ! 0);
           isMainAgent = includesStr firstSystemText mainAgentSignature;
           isSubAgent = includesStr firstSystemText subAgentSignature
       in
     if \<not> isMainAgent \<or> isSubAgent then (None, [])
     else
       let toolsScheduled = (tools requestBody \<noteq> None) in
     if length blocks < 2 then
       (None, if toolsScheduled then [UpdateLastSeenTools (tools requestBody)] else [])
     else
       let originalPrompt = sm_text (blocks ! 1);
           envBlock = extractEnvBlock originalPrompt;
           gitStatusBlock = extractGitStatusBlock originalPrompt
       in
     (case config interceptorConfig ''replacementPrompt'' of
        Some (CfgString template) \<Rightarrow>
          if template = [] then
            (None, (if toolsScheduled then [UpdateLastSeenTools (tools requestBody)] else [])
                   @ [UpdateLastSeenPrompt originalPrompt])
          else
            let newPrompt = applyTemplate template envBlock gitStatusBlock;
                rewritten = requestBody\<lparr>system := Some (SystemBlocks (setSecondText blocks newPrompt))\<rparr>;
                toolsRemoved = (\<not> truthy (config interceptorConfig ''toolsEnabled'')
                                \<and> tools requestBody \<noteq> None);
                final = (if toolsRemoved then rewritten\<lparr>tools := None\<rparr> else rewritten)
            in (Some (encode final),
                (if toolsScheduled then [UpdateLastSeenTools (tools final)] else [])
                @ [UpdateLastSeenPrompt originalPrompt])
      | _ \<Rightarrow>
          (None, (if toolsScheduled then [UpdateLastSeenTools (tools requestBody)] else [])
                 @ [UpdateLastSeenPrompt originalPrompt]))))))"


section \<open>Agent interceptor (agent-interceptor source, interceptAndModifyRequest)\<close>

record Agent =
  agentId :: string
  agentName :: string
  systemPrompt :: string
  agentModel :: string

record AgentPreference =
  preferenceModel :: string

text \<open>
  \<open>.filter(item => item.type === "text" && !!item.text).map(item => item.text).join("\n")\<close>
  on a system array and on a message's content array.
\<close>

definition systemBlocksText :: "SystemMessage list \<Rightarrow> string" where
  "systemBlocksText items =
     join ''\<newline>'' (map sm_text (filter (\<lambda>item. sm_type item = ''text'' \<and> sm_text item \<noteq> []) items))"

definition isTextContent :: "MessageContent \<Rightarrow> bool" where
  "isTextContent item =
     (mc_type item = Some ''text'' \<and> (case mc_text item of None \<Rightarrow> False | Some t \<Rightarrow> t \<noteq> []))"

definition contentBlocksText :: "MessageContent list \<Rightarrow> string" where
  "contentBlocksText items =
     join ''\<newline>'' (map (\<lambda>item. case mc_text item of Some t \<Rightarrow> t | None \<Rightarrow> []) (filter isTextContent items))"

definition hasClaudeMdMarkers :: "string \<Rightarrow> bool" where
  "hasClaudeMdMarkers t = (includesStr t ''Contents of'' \<and> includesStr t ''CLAUDE.md'')"

text \<open>
  \<open>extractSystemPrompt\<close>. The array \<open>allSystemContent\<close> is threaded through the three
  blocks of the function, each \<open>push\<close> appending one element; \<open>find\<close> returns the first
  message with the role.
\<close>

definition pushRootSystem :: "system_field option \<Rightarrow> string list \<Rightarrow> string list" where
  "pushRootSystem sys allSystemContent =
     (case sys of
        None \<Rightarrow> allSystemContent
      | Some (SystemString s) \<Rightarrow> if s = [] then allSystemContent else allSystemContent @ [s]
      | Some (SystemBlocks items) \<Rightarrow>
          (let systemText = systemBlocksText items in
           if systemText \<noteq> [] then allSystemContent @ [systemText] else allSystemContent))"

definition pushSystemMessage :: "Message list \<Rightarrow> string list \<Rightarrow> string list" where
  "pushSystemMessage msgs allSystemContent =
     (case find (\<lambda>msg. role msg = Some ''system'') msgs of
        None \<Rightarrow> allSystemContent
      | Some systemMessage \<Rightarrow>
          (case content systemMessage of
             None \<Rightarrow> allSystemContent
           | Some (ContentString s) \<Rightarrow> allSystemContent @ [s]
           | Some (ContentBlocks items) \<Rightarrow>
               (let systemText = contentBlocksText items in
                if systemText \<noteq> [] then allSystemContent @ [systemText] else allSystemContent)))"

definition pushUserMessage :: "Message list \<Rightarrow> string list \<Rightarrow> string list" where
  "pushUserMessage msgs allSystemContent =
     (case find (\<lambda>msg. role msg = Some ''user'') msgs of
        None \<Rightarrow> allSystemContent
      | Some userMessage \<Rightarrow>
          (case content userMessage of
             None \<Rightarrow> allSystemContent
           | Some (ContentBlocks items) \<Rightarrow>
               (let allUserText = contentBlocksText items in
                if hasClaudeMdMarkers allUserText then allSystemContent @ [allUserText]
                else allSystemContent)
           | Some (ContentString s) \<Rightarrow>
               if hasClaudeMdMarkers s then allSystemContent @ [s] else allSystemContent))"

definition extractSystemPrompt :: "'x RequestBody_scheme \<Rightarrow> string option" where
  "extractSystemPrompt requestBody =
     (let allSystemContent = pushRootSystem (system requestBody) [];
          allSystemContent =
            (case messages requestBody of
               None \<Rightarrow> allSystemContent
             | Some msgs \<Rightarrow> pushUserMessage msgs (pushSystemMessage msgs allSystemContent))
      in if length allSystemContent > 0 then Some (join ''\<newline>\<newline>'' allSystemContent)
         else None)"

text \<open>
  The interception of the agent stage (the function of the same name inside the agent
  interceptor). It works on the decoded object and returns the flags
  \<open>(modified, toolsRemoved)\<close>, the object as the assignments left it, and the callbacks
  handed to \<open>setImmediate\<close>. It reads the field \<open>promptTemplate\<close> of the stored
  configuration and replaces the token \<open>{{env_block}}\<close>.
\<close>

definition applySystemPromptInterception_agent ::
  "Db \<Rightarrow> 'x RequestBody_scheme \<Rightarrow> (bool \<times> bool) \<times> 'x RequestBody_scheme \<times> deferred list" where
  "applySystemPromptInterception_agent db requestBody =
     (case getInterceptorConfig db ''system_prompt'' of
        None \<Rightarrow> ((False, False), requestBody, [])
      | Some interceptorConfig \<Rightarrow>
     if \<not> isEnabled interceptorConfig then ((False, False), requestBody, [])
     else
     (case system requestBody of
        None \<Rightarrow> ((False, False), requestBody, [])
      | Some (SystemString s) \<Rightarrow> ((False, False), requestBody, [])
      | Some (SystemBlocks blocks) \<Rightarrow>
     if length blocks < 1 then ((False, False), requestBody, [])
     else
       let firstSystemText = sm_text (blocks ! 0);
           isMainAgent = includesStr firstSystemText mainAgentSignature;
           isSubAgent = includesStr firstSystemText subAgentSignature
       in
     if \<not> isMainAgent \<or> isSubAgent then ((False, False), requestBody, [])
     else if length blocks < 2 then ((False, False), requestBody, [])
     else
       let originalPrompt = sm_text (blocks ! 1);
           envBlock = extractEnvBlock originalPrompt
       in
     (case config interceptorConfig ''promptTemplate'' of
        Some (CfgString promptTemplate) \<Rightarrow>
          if promptTemplate = [] then
            ((False, False), requestBody, [UpdateLastSeenPrompt originalPrompt])
          else
            let newPrompt = replaceAll promptTemplate ''{{env_block}}'' envBlock;
                rewritten = requestBody\<lparr>system := Some (SystemBlocks (setSecondText blocks newPrompt))\<rparr>;
                toolsRemoved = (\<not> truthy (config interceptorConfig ''toolsEnabled'')
                                \<and> tools requestBody \<noteq> None);
                final = (if toolsRemoved then rewritten\<lparr>tools := None\<rparr> else rewritten)
            in ((True, toolsRemoved), final, [UpdateLastSeenPrompt originalPrompt])
      | _ \<Rightarrow> ((False, False), requestBody, [UpdateLastSeenPrompt originalPrompt]))))"


text \<open>
  \<open>dir.replace(/\/.claude\/agents$/, "")\<close>: the pattern is anchored at the end of the
  string and its dot matches any character but a line terminator.
\<close>

definition stripAgentsSuffix :: "string \<Rightarrow> string" where
  "stripAgentsSuffix dir =
     (let n = length dir in
      if 15 \<le> n \<and> dir ! (n - 15) = CHR ''/''
         \<and> dir ! (n - 14) \<noteq> CHR ''\<newline>'' \<and> dir ! (n - 14) \<noteq> char_of (13 :: nat)
         \<and> drop (n - 13) dir = ''claude/agents''
      then take (n - 15) dir else dir)"

text \<open>
  What the agent interceptor calls outside its own file. \<open>decode\<close> and \<open>encode\<close> are as
  for the system-prompt interceptor. \<open>extractAgentDirectories\<close> scans the prompt for
  directories with regular expressions and resolves them with the path library; none of
  the properties below depends on which directories it finds, so it is any function of
  the prompt. \<open>existsSync\<close> is the file system test. \<open>registerWorkspace\<close> and \<open>getAgents\<close>
  belong to the agent registry, whose state is \<open>'reg\<close>; \<open>getAgentPreference\<close> is the
  database lookup of the stored model preference. Each of the last three may throw:
  an error is a string.
\<close>

record ('buf, 'x, 'reg) Collaborators =
  decode :: "'buf \<Rightarrow> 'x RequestBody_scheme option"
  encode :: "'x RequestBody_scheme \<Rightarrow> 'buf"
  extractAgentDirectories :: "string \<Rightarrow> string list"
  existsSync :: "string \<Rightarrow> bool"
  registerWorkspace :: "string \<Rightarrow> 'reg \<Rightarrow> string option \<times> 'reg"
  getAgents :: "'reg \<Rightarrow> (string + Agent list) \<times> 'reg"
  getAgentPreference :: "string \<Rightarrow> string + AgentPreference option"

record 'buf AgentInterceptResult =
  modifiedBody :: "'buf option"
  agentUsed :: "string option"
  originalModel :: "string option"
  appliedModel :: "string option"
  systemPromptModified :: "bool option"
  toolsRemoved :: "bool option"

text \<open>
  The loop over the discovered directories: a workspace that exists is registered, the
  others are skipped. The first component is the error of a registration that threw.
\<close>

fun registerWorkspaces ::
  "('buf, 'x, 'reg) Collaborators \<Rightarrow> string list \<Rightarrow> 'reg \<Rightarrow> string option \<times> 'reg" where
  "registerWorkspaces c [] reg = (None, reg)"
| "registerWorkspaces c (dir # dirs) reg =
     (let workspacePath = stripAgentsSuffix dir in
      if existsSync c workspacePath then
        (case registerWorkspace c workspacePath reg of
           (Some err, reg') \<Rightarrow> (Some err, reg')
         | (None, reg') \<Rightarrow> registerWorkspaces c dirs reg')
      else registerWorkspaces c dirs reg)"

text \<open>\<open>preference?.model || detectedAgent.model\<close>\<close>

definition preferredModelOf :: "AgentPreference option \<Rightarrow> Agent \<Rightarrow> string" where
  "preferredModelOf preference detectedAgent =
     (case preference of
        None \<Rightarrow> agentModel detectedAgent
      | Some p \<Rightarrow> if preferenceModel p \<noteq> [] then preferenceModel p else agentModel detectedAgent)"

text \<open>
  The two returns that follow a call of the agent-stage interception without a model
  change: a new buffer when the interception reports a modification, the incoming buffer
  otherwise.
\<close>

definition resultAfterInterception ::
  "('buf, 'x, 'reg) Collaborators \<Rightarrow> Db \<Rightarrow> 'buf \<Rightarrow> 'x RequestBody_scheme \<Rightarrow> string option
    \<Rightarrow> string option \<Rightarrow> 'buf AgentInterceptResult \<times> deferred list" where
  "resultAfterInterception c db requestBodyBuffer requestBody agent original =
     (case applySystemPromptInterception_agent db requestBody of
        ((modified, removed), requestBody', scheduled) \<Rightarrow>
          if modified \<or> removed then
            (\<lparr>modifiedBody = Some (encode c requestBody'), agentUsed = agent,
              originalModel = original, appliedModel = original,
              systemPromptModified = Some modified, toolsRemoved = Some removed\<rparr>, scheduled)
          else
            (\<lparr>modifiedBody = Some requestBodyBuffer, agentUsed = agent,
              originalModel = original, appliedModel = original,
              systemPromptModified = None, toolsRemoved = None\<rparr>, scheduled))"

text \<open>
  The body of the \<open>try\<close> block of \<open>interceptAndModifyRequest\<close> for a buffer that is
  present. \<open>Inl\<close> is an exception that leaves the block; the registry state and the
  scheduled callbacks are returned beside the result.
\<close>

definition interceptAndModifyRequest_try ::
  "('buf, 'x, 'reg) Collaborators \<Rightarrow> Db \<Rightarrow> 'reg \<Rightarrow> 'buf
    \<Rightarrow> (string + 'buf AgentInterceptResult) \<times> 'reg \<times> deferred list" where
  "interceptAndModifyRequest_try c db reg requestBodyBuffer =
     (case decode c requestBodyBuffer of
        None \<Rightarrow> (Inl ''SyntaxError'', reg, [])
      | Some requestBody \<Rightarrow>
     let original = (case model requestBody of
                       None \<Rightarrow> None
                     | Some m \<Rightarrow> if m = [] then None else Some m);
         noPrompt = (Inr \<lparr>modifiedBody = Some requestBodyBuffer, agentUsed = None,
                          originalModel = original, appliedModel = original,
                          systemPromptModified = None, toolsRemoved = None\<rparr>, reg, [])
     in
     (case extractSystemPrompt requestBody of
        None \<Rightarrow> noPrompt
      | Some prompt \<Rightarrow>
     if prompt = [] then noPrompt
     else
     (case registerWorkspaces c (extractAgentDirectories c prompt) reg of
        (Some err, reg1) \<Rightarrow> (Inl err, reg1, [])
      | (None, reg1) \<Rightarrow>
     (case getAgents c reg1 of
        (Inl err, reg2) \<Rightarrow> (Inl err, reg2, [])
      | (Inr agents, reg2) \<Rightarrow>
     (case find (\<lambda>agent. includesStr prompt (trim (systemPrompt agent))) agents of
        None \<Rightarrow>
          (case resultAfterInterception c db requestBodyBuffer requestBody None original of
             (res, scheduled) \<Rightarrow> (Inr res, reg2, scheduled))
      | Some detectedAgent \<Rightarrow>
     (case getAgentPreference c (agentId detectedAgent) of
        Inl err \<Rightarrow> (Inl err, reg2, [])
      | Inr preference \<Rightarrow>
     let preferredModel = preferredModelOf preference detectedAgent in
     if Some preferredModel = original then
       (case resultAfterInterception c db requestBodyBuffer requestBody
               (Some (agentId detectedAgent)) original of
          (res, scheduled) \<Rightarrow> (Inr res, reg2, scheduled))
     else
       (case applySystemPromptInterception_agent db (requestBody\<lparr>model := Some preferredModel\<rparr>) of
          ((modified, removed), requestBody', scheduled) \<Rightarrow>
            (Inr \<lparr>modifiedBody = Some (encode c requestBody'),
                  agentUsed = Some (agentId detectedAgent),
                  originalModel = original, appliedModel = Some preferredModel,
                  systemPromptModified = Some modified, toolsRemoved = Some removed\<rparr>,
             reg2, scheduled))))))))"

text \<open>
  \<open>interceptAndModifyRequest\<close>: no buffer passes through with every field \<open>null\<close>; an
  exception of the \<open>try\<close> block is caught and answered with the incoming buffer and
  \<open>null\<close> for the agent and both models.
\<close>

definition interceptAndModifyRequest ::
  "('buf, 'x, 'reg) Collaborators \<Rightarrow> Db \<Rightarrow> 'reg \<Rightarrow> 'buf option
    \<Rightarrow> 'buf AgentInterceptResult \<times> 'reg \<times> deferred list" where
  "interceptAndModifyRequest c db reg requestBodyBuffer =
     (case requestBodyBuffer of
        None \<Rightarrow>
          (\<lparr>modifiedBody = None, agentUsed = None, originalModel = None, appliedModel = None,
            systemPromptModified = None, toolsRemoved = None\<rparr>, reg, [])
      | Some buf \<Rightarrow>
          (case interceptAndModifyRequest_try c db reg buf of
             (Inr res, reg', scheduled) \<Rightarrow> (res, reg', scheduled)
           | (Inl err, reg', scheduled) \<Rightarrow>
               (\<lparr>modifiedBody = Some buf, agentUsed = None, originalModel = None,
                 appliedModel = None, systemPromptModified = None, toolsRemoved = None\<rparr>,
                reg', scheduled)))"

section \<open>The wording of the specification, for comparison with the code\<close>

text \<open>
  The texts a message contributes: its string content, or the joined text of its content
  blocks when that is not empty. The root-level system field contributes the string
  itself when it is not empty, or the joined text of its blocks when that is not empty.
\<close>

definition messageTexts :: "Message \<Rightarrow> string list" where
  "messageTexts msg =
     (case content msg of
        None \<Rightarrow> []
      | Some (ContentString s) \<Rightarrow> [s]
      | Some (ContentBlocks items) \<Rightarrow>
          (if contentBlocksText items = [] then [] else [contentBlocksText items]))"

definition rootSystemTexts :: "system_field option \<Rightarrow> string list" where
  "rootSystemTexts sys =
     (case sys of
        None \<Rightarrow> []
      | Some (SystemString s) \<Rightarrow> (if s = [] then [] else [s])
      | Some (SystemBlocks items) \<Rightarrow>
          (if systemBlocksText items = [] then [] else [systemBlocksText items]))"

definition hasRole :: "string \<Rightarrow> Message \<Rightarrow> bool" where
  "hasRole r msg = (role msg = Some r)"

text \<open>
  The sources of the combined system prompt as the specification words them: the root
  system field, the text of every message with the role \<open>system\<close>, and the text of every
  message with the role \<open>user\<close> that contains both markers.
\<close>

definition spec_systemPromptSources :: "'x RequestBody_scheme \<Rightarrow> string list" where
  "spec_systemPromptSources requestBody =
     rootSystemTexts (system requestBody)
     @ (case messages requestBody of
          None \<Rightarrow> []
        | Some msgs \<Rightarrow>
            concat (map messageTexts (filter (hasRole ''system'') msgs))
            @ filter hasClaudeMdMarkers
                (concat (map messageTexts (filter (hasRole ''user'') msgs))))"

text \<open>The same with the first message of each role in place of every message.\<close>

definition first_systemPromptSources :: "'x RequestBody_scheme \<Rightarrow> string list" where
  "first_systemPromptSources requestBody =
     rootSystemTexts (system requestBody)
     @ (case messages requestBody of
          None \<Rightarrow> []
        | Some msgs \<Rightarrow>
            concat (map messageTexts (take 1 (filter (hasRole ''system'') msgs)))
            @ filter hasClaudeMdMarkers
                (concat (map messageTexts (take 1 (filter (hasRole ''user'') msgs)))))"


section \<open>Concrete collaborators and requests\<close>



text \<open>
  System blocks and request bodies. The codec of the examples is the identity: a buffer
  is the decoded body itself.
\<close>

definition mainBlock :: SystemMessage where
  "mainBlock = \<lparr>sm_type = ''text'',
                 sm_text = ''You are Claude Code, Anthropic's official CLI for Claude.'',
                 cache_control = Some ''ephemeral''\<rparr>"

definition subAgentBlock :: SystemMessage where
  "subAgentBlock = \<lparr>sm_type = ''text'',
                     sm_text = ''You are an agent for Claude Code, Anthropic's official CLI for Claude.'',
                     cache_control = None\<rparr>"

definition textBlock :: "string \<Rightarrow> SystemMessage" where
  "textBlock t = \<lparr>sm_type = ''text'', sm_text = t, cache_control = None\<rparr>"

definition readTool :: Tool where
  "readTool = \<lparr>tool_type = ''custom'', tool_name = ''Read'', description = None, input_schema = None\<rparr>"

definition requestWith :: "SystemMessage list \<Rightarrow> Tool list option \<Rightarrow> RequestBody" where
  "requestWith blocks ts =
     \<lparr>messages = None, model = Some ''base-v1'', system = Some (SystemBlocks blocks), tools = ts\<rparr>"

definition emptyDb :: Db where
  "emptyDb = \<lparr>interceptors = Map.empty, system_kv_store = Map.empty, setSystemKV_calls = []\<rparr>"

text \<open>The database after the configuration API stored an enabled configuration.\<close>

definition dbWithTemplate :: "string \<Rightarrow> bool \<Rightarrow> Db" where
  "dbWithTemplate template enabledTools =
     setInterceptorConfig ''system_prompt'' True
       \<lparr>targetPrompt = ''You are Claude Code, Anthropic's official CLI for Claude.'',
        replacementPrompt = template, toolsEnabled = enabledTools\<rparr> emptyDb"

text \<open>
  An agent registry that holds a fixed list of agents and a preference store; no
  directory is discovered. \<open>dec\<close> and \<open>enc\<close> are the codec.
\<close>

definition collaborators ::
  "('buf \<Rightarrow> RequestBody option) \<Rightarrow> (RequestBody \<Rightarrow> 'buf) \<Rightarrow> Agent list
    \<Rightarrow> (string \<Rightarrow> AgentPreference option) \<Rightarrow> ('buf, unit, unit) Collaborators" where
  "collaborators dec enc agents preferences =
     \<lparr>decode = dec, encode = enc,
      extractAgentDirectories = (\<lambda>prompt. []),
      existsSync = (\<lambda>path. False),
      registerWorkspace = (\<lambda>path reg. (None, reg)),
      getAgents = (\<lambda>reg. (Inr agents, reg)),
      getAgentPreference = (\<lambda>ident. Inr (preferences ident))\<rparr>"

text \<open>The same registry when loading the agents fails.\<close>

definition collaboratorsRegistryDown ::
  "('buf \<Rightarrow> RequestBody option) \<Rightarrow> (RequestBody \<Rightarrow> 'buf) \<Rightarrow> ('buf, unit, unit) Collaborators" where
  "collaboratorsRegistryDown dec enc =
     (collaborators dec enc [] (\<lambda>ident. None))\<lparr>getAgents := (\<lambda>reg. (Inl ''registry unavailable'', reg))\<rparr>"

text \<open>A decoder for buffers of text that accepts one body and rejects everything else.\<close>

definition parseOnly :: "string \<Rightarrow> RequestBody \<Rightarrow> string \<Rightarrow> RequestBody option" where
  "parseOnly accepted body buf = (if buf = accepted then Some body else None)"

definition renderFixed :: "string \<Rightarrow> RequestBody \<Rightarrow> string" where
  "renderFixed rendered body = rendered"

text \<open>
  One registered agent, a preference store with one entry, and a request whose system
  prompt contains the agent's signature.
\<close>

definition agent42 :: Agent where
  "agent42 = \<lparr>agentId = ''Agent42'', agentName = ''Agent 42'',
               systemPrompt = ''You are Agent42, a careful reviewer.'', agentModel = ''default-v1''\<rparr>"

definition preferFor :: "string \<Rightarrow> string \<Rightarrow> string \<Rightarrow> AgentPreference option" where
  "preferFor ident m asked = (if asked = ident then Some \<lparr>preferenceModel = m\<rparr> else None)"

definition agent42Request :: RequestBody where
  "agent42Request =
     \<lparr>messages = None, model = Some ''base-v1'',
      system = Some (SystemString ''Task context. You are Agent42, a careful reviewer. Be strict.''),
      tools = None\<rparr>"

text \<open>A request with two user messages; only the second holds the markers.\<close>

definition userMessage :: "string \<Rightarrow> Message" where
  "userMessage t = \<lparr>role = Some ''user'', content = Some (ContentString t)\<rparr>"

definition twoUserMessages :: RequestBody where
  "twoUserMessages =
     \<lparr>messages = Some [userMessage ''Hello'',
                       userMessage ''Contents of /repo/CLAUDE.md (project instructions)''],
      model = Some ''base-v1'', system = Some (SystemString ''Be brief.''), tools = None\<rparr>"

text \<open>
  A statement runner that stores a null for a value that is not a string, so that the
  key reads as \<open>null\<close> afterwards.
\<close>

definition storeNull :: "string \<Rightarrow> (string \<rightharpoonup> string) \<Rightarrow> (string \<rightharpoonup> string)" where
  "storeNull key table = table(key := None)"

text \<open>A serializer of tool lists that writes the names, separated by commas.\<close>

definition toolNames :: "Tool list \<Rightarrow> string" where
  "toolNames ts = join '','' (map tool_name ts)"

text \<open>
  A request with a system array, a system message and two user messages that hold the
  markers, the first of them in text blocks around an image block.
\<close>

definition claudeMdRequest :: RequestBody where
  "claudeMdRequest =
     \<lparr>messages = Some
        [\<lparr>role = Some ''system'', content = Some (ContentString ''Stay on topic.'')\<rparr>,
         \<lparr>role = Some ''user'',
          content = Some (ContentBlocks
            [\<lparr>mc_type = Some ''text'', mc_text = Some ''Contents of /repo/CLAUDE.md:''\<rparr>,
             \<lparr>mc_type = Some ''image'', mc_text = None\<rparr>,
             \<lparr>mc_type = Some ''text'', mc_text = Some ''Use tabs.''\<rparr>])\<rparr>,
         \<lparr>role = Some ''user'', content = Some (ContentString ''Contents of /other/CLAUDE.md'')\<rparr>],
      model = Some ''base-v1'',
      system = Some (SystemBlocks [textBlock ''Be brief.'', textBlock ''Answer in English.'']),
      tools = None\<rparr>"

text \<open>A preference store that holds nothing.\<close>

definition noPreferences :: "string \<Rightarrow> AgentPreference option" where
  "noPreferences ident = None"

section \<open>Account failover\<close>





section \<open>System-prompt interceptor\<close>

lemmas example_defs =
  mainBlock_def subAgentBlock_def textBlock_def readTool_def requestWith_def emptyDb_def
  dbWithTemplate_def setInterceptorConfig_def getInterceptorConfig_def configFields_def

lemmas string_defs =
  includesStr_def mainAgentSignature_def subAgentSignature_def extractEnvBlock_def
  extractGitStatusBlock_def applyTemplate_def replaceAll_def replaceFrom.simps
  matchEnvBlocks.simps setSecondText_def

text \<open>
  Every path on which the interceptor returns a buffer: the body decodes, the stored
  configuration is enabled, the system field is an array of at least two blocks, the
  first block carries the main-agent signature and not the sub-agent signature, and the
  stored \<open>replacementPrompt\<close> is a non-empty string. The buffer is the encoding of the
  body after the two assignments.
\<close>

lemma interception_Some_cases:
  assumes "applySystemPromptInterception dec enc db (Some buf) = (Some out, scheduled)"
  obtains body ic blocks template where
    "dec buf = Some body"
    "getInterceptorConfig db ''system_prompt'' = Some ic" "isEnabled ic"
    "system body = Some (SystemBlocks blocks)" "2 \<le> length blocks"
    "includesStr (sm_text (blocks ! 0)) mainAgentSignature"
    "\<not> includesStr (sm_text (blocks ! 0)) subAgentSignature"
    "config ic ''replacementPrompt'' = Some (CfgString template)" "template \<noteq> []"
    "out = enc (let rewritten = body\<lparr>system := Some (SystemBlocks (setSecondText blocks
                  (applyTemplate template (extractEnvBlock (sm_text (blocks ! 1)))
                     (extractGitStatusBlock (sm_text (blocks ! 1))))))\<rparr>
                in if \<not> truthy (config ic ''toolsEnabled'') \<and> tools body \<noteq> None
                   then rewritten\<lparr>tools := None\<rparr> else rewritten)"
  using assms
  unfolding applySystemPromptInterception_def
  by (auto simp: Let_def split: option.splits system_field.splits cfg_value.splits if_splits)

text \<open>
  Conversely, on every such request the interceptor returns a buffer, whether or not the
  rewriting changed anything.
\<close>

lemma interception_applies:
  assumes "dec buf = Some body"
    and "getInterceptorConfig db ''system_prompt'' = Some ic" and "isEnabled ic"
    and "system body = Some (SystemBlocks blocks)" and "2 \<le> length blocks"
    and "includesStr (sm_text (blocks ! 0)) mainAgentSignature"
    and "\<not> includesStr (sm_text (blocks ! 0)) subAgentSignature"
    and "config ic ''replacementPrompt'' = Some (CfgString template)" and "template \<noteq> []"
  shows "fst (applySystemPromptInterception dec enc db (Some buf)) =
           Some (enc (let rewritten = body\<lparr>system := Some (SystemBlocks (setSecondText blocks
                  (applyTemplate template (extractEnvBlock (sm_text (blocks ! 1)))
                     (extractGitStatusBlock (sm_text (blocks ! 1))))))\<rparr>
                in if \<not> truthy (config ic ''toolsEnabled'') \<and> tools body \<noteq> None
                   then rewritten\<lparr>tools := None\<rparr> else rewritten))"
  using assms
  unfolding applySystemPromptInterception_def
  by (auto simp: Let_def)

text \<open>
  Claim C4. With an enabled configuration and a system array, the interceptor returns a
  buffer only when the text of the first system block contains the main-agent signature
  and does not contain the sub-agent signature. Whenever that condition fails, it
  returns \<open>null\<close>, the signal for an unchanged body, and schedules nothing.
\<close>

theorem main_agent_gate:
  assumes "dec buf = Some body"
    and "getInterceptorConfig db ''system_prompt'' = Some ic" and "isEnabled ic"
    and "system body = Some (SystemBlocks blocks)"
  shows "(fst (applySystemPromptInterception dec enc db (Some buf)) \<noteq> None \<longrightarrow>
            blocks \<noteq> [] \<and> includesStr (sm_text (blocks ! 0)) mainAgentSignature
            \<and> \<not> includesStr (sm_text (blocks ! 0)) subAgentSignature)
       \<and> (\<not> (blocks \<noteq> [] \<and> includesStr (sm_text (blocks ! 0)) mainAgentSignature
               \<and> \<not> includesStr (sm_text (blocks ! 0)) subAgentSignature) \<longrightarrow>
            applySystemPromptInterception dec enc db (Some buf) = (None, []))"
  using assms
  unfolding applySystemPromptInterception_def
  by (auto simp: Let_def split: option.splits system_field.splits cfg_value.splits if_splits)

text \<open>
  A sub-agent session under an enabled configuration is returned unchanged; the same
  request with the main-agent block in front is rewritten.
\<close>

theorem main_agent_gate_witness:
  "applySystemPromptInterception Some id (dbWithTemplate ''Hi.\<newline>{{env_block}}'' True)
        (Some (requestWith [subAgentBlock, textBlock ''<env>X</env>''] (Some [readTool])))
      = (None, [])
   \<and> fst (applySystemPromptInterception Some id (dbWithTemplate ''Hi.\<newline>{{env_block}}'' True)
        (Some (requestWith [mainBlock, textBlock ''<env>X</env>''] (Some [readTool]))))
      = Some (requestWith [mainBlock, textBlock ''Hi.\<newline><env>X</env>''] (Some [readTool]))
   \<and> includesStr (sm_text mainBlock) mainAgentSignature
   \<and> \<not> includesStr (sm_text mainBlock) subAgentSignature
   \<and> includesStr (sm_text subAgentBlock) subAgentSignature"
proof -
  let ?db = "dbWithTemplate ''Hi.\<newline>{{env_block}}'' True"
  let ?ic = "\<lparr>isEnabled = True,
              config = configFields \<lparr>targetPrompt = ''You are Claude Code, Anthropic's official CLI for Claude.'',
                 replacementPrompt = ''Hi.\<newline>{{env_block}}'', toolsEnabled = True\<rparr>\<rparr>"
  let ?sub = "requestWith [subAgentBlock, textBlock ''<env>X</env>''] (Some [readTool])"
  let ?main = "requestWith [mainBlock, textBlock ''<env>X</env>''] (Some [readTool])"
  have cfg: "getInterceptorConfig ?db ''system_prompt'' = Some ?ic"
    by (simp add: example_defs)
  have en: "isEnabled ?ic" by simp
  have subSys: "system ?sub = Some (SystemBlocks [subAgentBlock, textBlock ''<env>X</env>''])"
    and mainSys: "system ?main = Some (SystemBlocks [mainBlock, textBlock ''<env>X</env>''])"
    by (simp_all add: requestWith_def)
  have isSub: "includesStr (sm_text subAgentBlock) subAgentSignature"
    by (simp add: example_defs string_defs)
  have isMain: "includesStr (sm_text mainBlock) mainAgentSignature"
    and notSub: "\<not> includesStr (sm_text mainBlock) subAgentSignature"
    by (simp_all add: example_defs string_defs)
  have run: "fst (applySystemPromptInterception Some id ?db (Some ?main))
      = Some (requestWith [mainBlock, textBlock ''Hi.\<newline><env>X</env>''] (Some [readTool]))"
    by (simp add: applySystemPromptInterception_def example_defs string_defs Let_def)
  from main_agent_gate[of Some ?sub ?sub ?db ?ic _ id, OF refl cfg en subSys] isSub
  have "applySystemPromptInterception Some id ?db (Some ?sub) = (None, [])" by simp
  moreover from main_agent_gate[of Some ?main ?main ?db ?ic _ id, OF refl cfg en mainSys] run
  have "includesStr (sm_text mainBlock) mainAgentSignature
        \<and> \<not> includesStr (sm_text mainBlock) subAgentSignature" by simp
  ultimately show ?thesis using run isSub by simp
qed

text \<open>
  Claim C10. Whenever the interceptor returns a buffer, the body it decodes to differs
  from the decoded input in the text of the second system block and in the possible
  removal of the top-level \<open>tools\<close> field, and in nothing else: the model, the messages,
  every field the interfaces do not name, the number of system blocks, every system
  block other than the second, and the type and cache control of the second block are
  those of the input. The codec is assumed to decode what it encoded.
\<close>

theorem interception_frame:
  assumes roundtrip: "\<And>b. dec (enc b) = Some b"
    and run: "applySystemPromptInterception dec enc db (Some buf) = (Some out, scheduled)"
  shows "\<exists>body final blocks blocks'.
           dec buf = Some body \<and> dec out = Some final
           \<and> model final = model body
           \<and> messages final = messages body
           \<and> RequestBody.more final = RequestBody.more body
           \<and> (tools final = tools body \<or> tools final = None)
           \<and> system body = Some (SystemBlocks blocks)
           \<and> system final = Some (SystemBlocks blocks')
           \<and> length blocks' = length blocks \<and> 2 \<le> length blocks
           \<and> (\<forall>i < length blocks. i \<noteq> 1 \<longrightarrow> blocks' ! i = blocks ! i)
           \<and> sm_type (blocks' ! 1) = sm_type (blocks ! 1)
           \<and> cache_control (blocks' ! 1) = cache_control (blocks ! 1)"
proof (rule interception_Some_cases[OF run])
  fix body ic blocks template
  assume body: "dec buf = Some body" and sys: "system body = Some (SystemBlocks blocks)"
    and len: "2 \<le> length blocks"
    and out: "out = enc (let rewritten = body\<lparr>system := Some (SystemBlocks (setSecondText blocks
                  (applyTemplate template (extractEnvBlock (sm_text (blocks ! 1)))
                     (extractGitStatusBlock (sm_text (blocks ! 1))))))\<rparr>
                in if \<not> truthy (config ic ''toolsEnabled'') \<and> tools body \<noteq> None
                   then rewritten\<lparr>tools := None\<rparr> else rewritten)"
  define newPrompt where "newPrompt = applyTemplate template (extractEnvBlock (sm_text (blocks ! 1)))
                     (extractGitStatusBlock (sm_text (blocks ! 1)))"
  define final where "final = (let rewritten = body\<lparr>system := Some (SystemBlocks (setSecondText blocks newPrompt))\<rparr>
                in if \<not> truthy (config ic ''toolsEnabled'') \<and> tools body \<noteq> None
                   then rewritten\<lparr>tools := None\<rparr> else rewritten)"
  have "dec out = Some final" using out roundtrip by (simp add: final_def newPrompt_def)
  moreover have "model final = model body" "messages final = messages body"
    "RequestBody.more final = RequestBody.more body"
    "tools final = tools body \<or> tools final = None"
    "system final = Some (SystemBlocks (setSecondText blocks newPrompt))"
    by (simp_all add: final_def Let_def)
  moreover have "length (setSecondText blocks newPrompt) = length blocks"
    "\<forall>i < length blocks. i \<noteq> 1 \<longrightarrow> setSecondText blocks newPrompt ! i = blocks ! i"
    "sm_type (setSecondText blocks newPrompt ! 1) = sm_type (blocks ! 1)"
    "cache_control (setSecondText blocks newPrompt ! 1) = cache_control (blocks ! 1)"
    using len by (simp_all add: setSecondText_def)
  ultimately show ?thesis using body sys len by blast
qed

text \<open>
  A main-agent request with one tool under a configuration that disables tools: the
  second block is rewritten, the tools are removed, the rest is kept.
\<close>

theorem interception_frame_witness:
  "Some (id (requestWith [mainBlock, textBlock ''<env>X</env>''] (Some [readTool])))
     = Some (requestWith [mainBlock, textBlock ''<env>X</env>''] (Some [readTool]))
   \<and> applySystemPromptInterception Some id (dbWithTemplate ''Hi.\<newline>{{env_block}}'' False)
        (Some (requestWith [mainBlock, textBlock ''<env>X</env>''] (Some [readTool])))
      = (Some (requestWith [mainBlock, textBlock ''Hi.\<newline><env>X</env>''] None),
         [UpdateLastSeenTools None, UpdateLastSeenPrompt ''<env>X</env>''])"
proof -
  have rt: "\<And>b :: RequestBody. Some (id b) = Some b" by simp
  have run: "applySystemPromptInterception Some id (dbWithTemplate ''Hi.\<newline>{{env_block}}'' False)
        (Some (requestWith [mainBlock, textBlock ''<env>X</env>''] (Some [readTool])))
      = (Some (requestWith [mainBlock, textBlock ''Hi.\<newline><env>X</env>''] None),
         [UpdateLastSeenTools None, UpdateLastSeenPrompt ''<env>X</env>''])"
    by (simp add: applySystemPromptInterception_def example_defs string_defs Let_def)
  from interception_frame[of Some id, OF rt run] rt run show ?thesis by simp
qed

text \<open>
  A replacement text without a dollar sign is inserted as it is, so the template
  rewriting is the substitution of both tokens when neither extracted block holds one.
\<close>

lemma getSubstitution_verbatim:
  "CHR ''$'' \<notin> set replacement \<Longrightarrow> getSubstitution matched pre post replacement = replacement"
  by (induction matched pre post replacement rule: getSubstitution.induct) auto

lemma replaceFrom_verbatim:
  "CHR ''$'' \<notin> set v \<Longrightarrow> replaceFrom pat v str pos = substituteFrom pat v str pos"
proof (induction pat v str pos rule: replaceFrom.induct)
  case (1 pat replacement str pos)
  show ?case
  proof (cases "pat = []")
    case True
    then show ?thesis by (simp add: replaceFrom.simps substituteFrom.simps)
  next
    case False
    show ?thesis
    proof (cases "indexOf (drop pos str) pat")
      case None
      with False show ?thesis
        by (subst replaceFrom.simps, subst substituteFrom.simps) simp
    next
      case (Some i)
      from "1.IH"[OF False Some "1.prems"] False Some "1.prems" show ?thesis
        by (subst replaceFrom.simps, subst substituteFrom.simps)
           (simp add: getSubstitution_verbatim)
    qed
  qed
qed

lemma applyTemplate_verbatim:
  assumes "CHR ''$'' \<notin> set envBlock" and "CHR ''$'' \<notin> set gitStatusBlock"
  shows "applyTemplate template envBlock gitStatusBlock =
    substituteEvery (substituteEvery template ''{{env_block}}'' envBlock) ''{{git_status_block}}'' gitStatusBlock"
  using assms by (simp add: applyTemplate_def replaceAll_def substituteEvery_def replaceFrom_verbatim)

text \<open>
  Claim C3 at an env block that holds two dollar signs in a row. The claim asks for the
  template with the token replaced by the extracted block, which is the third equation;
  the interceptor writes a text with one dollar sign, because \<open>String.prototype.replace\<close>
  reads \<open>$$\<close> in a replacement string as an escaped dollar sign.
\<close>

theorem env_block_dollar_not_verbatim:
  "fst (applySystemPromptInterception Some id (dbWithTemplate ''Hi.\<newline>{{env_block}}'' True)
          (Some (requestWith [mainBlock, textBlock ''<env>Working directory: /srv/$$data</env>''] None)))
     = Some (requestWith [mainBlock, textBlock ''Hi.\<newline><env>Working directory: /srv/$data</env>''] None)
   \<and> extractEnvBlock ''<env>Working directory: /srv/$$data</env>''
     = ''<env>Working directory: /srv/$$data</env>''
   \<and> substituteEvery
         (substituteEvery ''Hi.\<newline>{{env_block}}'' ''{{env_block}}''
            (extractEnvBlock ''<env>Working directory: /srv/$$data</env>''))
         ''{{git_status_block}}'' (extractGitStatusBlock ''<env>Working directory: /srv/$$data</env>'')
     = ''Hi.\<newline><env>Working directory: /srv/$$data</env>''"
  by (simp add: applySystemPromptInterception_def example_defs string_defs Let_def
        substituteEvery_def substituteFrom.simps)

text \<open>The text the interceptor wrote is not the text the claim describes.\<close>

theorem env_block_dollar_not_verbatim_witness:
  "fst (applySystemPromptInterception Some id (dbWithTemplate ''Hi.\<newline>{{env_block}}'' True)
          (Some (requestWith [mainBlock, textBlock ''<env>Working directory: /srv/$$data</env>''] None)))
     \<noteq> Some (requestWith [mainBlock, textBlock
          (substituteEvery
             (substituteEvery ''Hi.\<newline>{{env_block}}'' ''{{env_block}}''
                (extractEnvBlock ''<env>Working directory: /srv/$$data</env>''))
             ''{{git_status_block}}'' (extractGitStatusBlock ''<env>Working directory: /srv/$$data</env>''))] None)"
proof -
  note code = env_block_dollar_not_verbatim [THEN conjunct1]
  note claimed = env_block_dollar_not_verbatim [THEN conjunct2, THEN conjunct2]
  show ?thesis
    unfolding code claimed by (simp add: requestWith_def textBlock_def)
qed

text \<open>
  Claim C7 fails on the code: once the request is eligible and the template is a
  non-empty string, the interceptor returns a buffer. When the rewritten text equals the
  original text of the second block and no tools are removed, nothing has changed, and
  the buffer it returns is the encoding of the body as it was decoded, where the claim
  asks for \<open>null\<close>.
\<close>

theorem unchanged_request_still_returned:
  assumes "dec buf = Some body"
    and "getInterceptorConfig db ''system_prompt'' = Some ic" and "isEnabled ic"
    and "system body = Some (SystemBlocks blocks)" and "2 \<le> length blocks"
    and "includesStr (sm_text (blocks ! 0)) mainAgentSignature"
    and "\<not> includesStr (sm_text (blocks ! 0)) subAgentSignature"
    and "config ic ''replacementPrompt'' = Some (CfgString template)" and "template \<noteq> []"
    and same: "applyTemplate template (extractEnvBlock (sm_text (blocks ! 1)))
             (extractGitStatusBlock (sm_text (blocks ! 1))) = sm_text (blocks ! 1)"
    and kept: "truthy (config ic ''toolsEnabled'') \<or> tools body = None"
  shows "fst (applySystemPromptInterception dec enc db (Some buf)) = Some (enc body)"
proof -
  have "setSecondText blocks (sm_text (blocks ! 1)) = blocks"
    by (simp add: setSecondText_def)
  with assms(4) have "body\<lparr>system := Some (SystemBlocks (setSecondText blocks (sm_text (blocks ! 1))))\<rparr> = body"
    by simp
  moreover have "fst (applySystemPromptInterception dec enc db (Some buf)) =
           Some (enc (let rewritten = body\<lparr>system := Some (SystemBlocks (setSecondText blocks
                  (applyTemplate template (extractEnvBlock (sm_text (blocks ! 1)))
                     (extractGitStatusBlock (sm_text (blocks ! 1))))))\<rparr>
                in if \<not> truthy (config ic ''toolsEnabled'') \<and> tools body \<noteq> None
                   then rewritten\<lparr>tools := None\<rparr> else rewritten))"
    using assms(1-9) by (rule interception_applies)
  ultimately show ?thesis using same kept
    by (auto simp: Let_def)
qed

text \<open>
  A request whose second system block already reads as the template does, with tools
  that stay.
\<close>

theorem unchanged_request_still_returned_witness:
  "applySystemPromptInterception Some id (dbWithTemplate ''Hello'' True)
     (Some (requestWith [mainBlock, textBlock ''Hello''] (Some [readTool])))
   = (Some (requestWith [mainBlock, textBlock ''Hello''] (Some [readTool])),
      [UpdateLastSeenTools (Some [readTool]), UpdateLastSeenPrompt ''Hello''])
   \<and> applyTemplate ''Hello'' (extractEnvBlock ''Hello'') (extractGitStatusBlock ''Hello'') = ''Hello''"
proof -
  let ?db = "dbWithTemplate ''Hello'' True"
  let ?body = "requestWith [mainBlock, textBlock ''Hello''] (Some [readTool])"
  let ?ic = "\<lparr>isEnabled = True,
              config = configFields \<lparr>targetPrompt = ''You are Claude Code, Anthropic's official CLI for Claude.'',
                 replacementPrompt = ''Hello'', toolsEnabled = True\<rparr>\<rparr>"
  have cfg: "getInterceptorConfig ?db ''system_prompt'' = Some ?ic" by (simp add: example_defs)
  have en: "isEnabled ?ic" by simp
  have sys: "system ?body = Some (SystemBlocks [mainBlock, textBlock ''Hello''])"
    by (simp add: requestWith_def)
  have len: "2 \<le> length [mainBlock, textBlock ''Hello'']" by simp
  have isMain: "includesStr (sm_text ([mainBlock, textBlock ''Hello''] ! 0)) mainAgentSignature"
    and notSub: "\<not> includesStr (sm_text ([mainBlock, textBlock ''Hello''] ! 0)) subAgentSignature"
    by (simp_all add: example_defs string_defs)
  have tpl: "config ?ic ''replacementPrompt'' = Some (CfgString ''Hello'')" "''Hello'' \<noteq> []"
    by (simp_all add: configFields_def)
  have same: "applyTemplate ''Hello'' (extractEnvBlock (sm_text ([mainBlock, textBlock ''Hello''] ! 1)))
             (extractGitStatusBlock (sm_text ([mainBlock, textBlock ''Hello''] ! 1)))
          = sm_text ([mainBlock, textBlock ''Hello''] ! 1)"
    by (simp add: example_defs string_defs)
  have kept: "truthy (config ?ic ''toolsEnabled'') \<or> tools ?body = None"
    by (simp add: configFields_def)
  have sched: "snd (applySystemPromptInterception Some id ?db (Some ?body))
     = [UpdateLastSeenTools (Some [readTool]), UpdateLastSeenPrompt ''Hello'']"
    by (simp add: applySystemPromptInterception_def example_defs string_defs Let_def)
  from unchanged_request_still_returned[of Some ?body ?body ?db ?ic _ "''Hello''" id,
      OF refl cfg en sys len isMain notSub tpl same kept]
  have "fst (applySystemPromptInterception Some id ?db (Some ?body)) = Some ?body" by simp
  with sched same show ?thesis by (simp add: prod_eq_iff textBlock_def)
qed



section \<open>Deferred updates of the last-seen values\<close>

text \<open>
  The update of the last-seen prompt with the new value \<open>v\<close>, and the update of the
  last-seen tools when it is passed a list of tools, with the new value
  \<open>stringifyTools ts\<close>: when the value stored under the key equals the new value, the
  database is left as it is, so \<open>setSystemKV\<close> is not called; otherwise \<open>setSystemKV\<close> is
  called once with the key and the new value, the key reads as the new value afterwards
  and every other key is untouched.
\<close>

lemma last_seen_compare_before_write:
  "(getSystemKV db ''last_seen_system_prompt'' = Some v \<longrightarrow> updateLastSeenPrompt v db = db)
   \<and> (getSystemKV db ''last_seen_system_prompt'' \<noteq> Some v \<longrightarrow>
        getSystemKV (updateLastSeenPrompt v db) ''last_seen_system_prompt'' = Some v
        \<and> setSystemKV_calls (updateLastSeenPrompt v db)
            = setSystemKV_calls db @ [(''last_seen_system_prompt'', Some v)]
        \<and> (\<forall>k. k \<noteq> ''last_seen_system_prompt'' \<longrightarrow>
              getSystemKV (updateLastSeenPrompt v db) k = getSystemKV db k))
   \<and> (getSystemKV db ''last_seen_tools'' = Some (stringifyTools ts) \<longrightarrow>
        updateLastSeenTools stringifyTools writeUndefined (Some ts) db = db)
   \<and> (getSystemKV db ''last_seen_tools'' \<noteq> Some (stringifyTools ts) \<longrightarrow>
        getSystemKV (updateLastSeenTools stringifyTools writeUndefined (Some ts) db) ''last_seen_tools''
            = Some (stringifyTools ts)
        \<and> setSystemKV_calls (updateLastSeenTools stringifyTools writeUndefined (Some ts) db)
            = setSystemKV_calls db @ [(''last_seen_tools'', Some (stringifyTools ts))]
        \<and> (\<forall>k. k \<noteq> ''last_seen_tools'' \<longrightarrow>
              getSystemKV (updateLastSeenTools stringifyTools writeUndefined (Some ts) db) k
                = getSystemKV db k))"
  by (auto simp: updateLastSeenPrompt_def updateLastSeenTools_def getSystemKV_def setSystemKV_def Let_def)

text \<open>
  The callbacks the interceptor schedules for a main-agent request that carries tools
  under a configuration that disables tools: the tools callback finds the field deleted.
\<close>

lemma removed_tools_scheduled:
  assumes "dec buf = Some body"
    and "getInterceptorConfig db ''system_prompt'' = Some ic" and "isEnabled ic"
    and "system body = Some (SystemBlocks blocks)" and "2 \<le> length blocks"
    and "includesStr (sm_text (blocks ! 0)) mainAgentSignature"
    and "\<not> includesStr (sm_text (blocks ! 0)) subAgentSignature"
    and "config ic ''replacementPrompt'' = Some (CfgString template)" and "template \<noteq> []"
    and "\<not> truthy (config ic ''toolsEnabled'')" and "tools body = Some ts"
  shows "snd (applySystemPromptInterception dec enc db (Some buf))
           = [UpdateLastSeenTools None, UpdateLastSeenPrompt (sm_text (blocks ! 1))]"
  using assms
  unfolding applySystemPromptInterception_def
  by (auto simp: Let_def)

text \<open>
  Claim C9 fails on the code for the tools update of every request whose tools the
  interceptor removed. On a main-agent request that carries the tools \<open>ts\<close>, under an
  enabled configuration with a valid template and tools disabled, the first callback
  that runs is the tools update, and it runs on \<open>undefined\<close>. Let the store hold, under
  \<open>last_seen_tools\<close>, exactly the serialized tools of the request, so that the claim asks
  for no call of \<open>setSystemKV\<close>: the callback calls \<open>setSystemKV\<close> all the same, once, with
  \<open>undefined\<close> as the value, and the key is left as the statement runner leaves it, not
  set to a new value.
\<close>

theorem removed_tools_written_every_time:
  assumes "dec buf = Some body"
    and "getInterceptorConfig db ''system_prompt'' = Some ic" and "isEnabled ic"
    and "system body = Some (SystemBlocks blocks)" and "2 \<le> length blocks"
    and "includesStr (sm_text (blocks ! 0)) mainAgentSignature"
    and "\<not> includesStr (sm_text (blocks ! 0)) subAgentSignature"
    and "config ic ''replacementPrompt'' = Some (CfgString template)" and "template \<noteq> []"
    and "\<not> truthy (config ic ''toolsEnabled'')" and "tools body = Some ts"
    and stored: "getSystemKV kv ''last_seen_tools'' = Some (stringifyTools ts)"
  shows "hd (snd (applySystemPromptInterception dec enc db (Some buf))) = UpdateLastSeenTools None
       \<and> setSystemKV_calls
            (runDeferred stringifyTools writeUndefined
               (hd (snd (applySystemPromptInterception dec enc db (Some buf)))) kv)
           = setSystemKV_calls kv @ [(''last_seen_tools'', None)]
       \<and> getSystemKV
            (runDeferred stringifyTools writeUndefined
               (hd (snd (applySystemPromptInterception dec enc db (Some buf)))) kv) ''last_seen_tools''
           = writeUndefined ''last_seen_tools'' (system_kv_store kv) ''last_seen_tools''"
proof -
  have "snd (applySystemPromptInterception dec enc db (Some buf))
           = [UpdateLastSeenTools None, UpdateLastSeenPrompt (sm_text (blocks ! 1))]"
    using assms(1-11) by (rule removed_tools_scheduled)
  then show ?thesis
    by (simp add: updateLastSeenTools_def setSystemKV_undefined_def getSystemKV_def)
qed

text \<open>
  The store holds the serialized tools of the request, \<open>Read\<close>. The request carries the
  tool \<open>Read\<close>, the configuration disables tools. Running the scheduled callbacks calls
  \<open>setSystemKV\<close> for \<open>last_seen_tools\<close> with \<open>undefined\<close>, and with a statement runner that
  stores a null the key reads as \<open>null\<close> afterwards. The same tools passed as a list
  leave the store alone.
\<close>

theorem removed_tools_written_every_time_witness:
  "getSystemKV (setSystemKV ''last_seen_tools'' ''Read'' emptyDb) ''last_seen_tools''
     = Some (toolNames [readTool])
   \<and> snd (applySystemPromptInterception Some id (dbWithTemplate ''Hi.\<newline>{{env_block}}'' False)
        (Some (requestWith [mainBlock, textBlock ''<env>X</env>''] (Some [readTool]))))
     = [UpdateLastSeenTools None, UpdateLastSeenPrompt ''<env>X</env>'']
   \<and> setSystemKV_calls
        (runAllDeferred toolNames storeNull
           (snd (applySystemPromptInterception Some id (dbWithTemplate ''Hi.\<newline>{{env_block}}'' False)
              (Some (requestWith [mainBlock, textBlock ''<env>X</env>''] (Some [readTool])))))
           (setSystemKV ''last_seen_tools'' ''Read'' emptyDb))
     = [(''last_seen_tools'', Some ''Read''), (''last_seen_tools'', None),
        (''last_seen_system_prompt'', Some ''<env>X</env>'')]
   \<and> getSystemKV
        (runAllDeferred toolNames storeNull
           (snd (applySystemPromptInterception Some id (dbWithTemplate ''Hi.\<newline>{{env_block}}'' False)
              (Some (requestWith [mainBlock, textBlock ''<env>X</env>''] (Some [readTool])))))
           (setSystemKV ''last_seen_tools'' ''Read'' emptyDb)) ''last_seen_tools''
     = None
   \<and> updateLastSeenTools toolNames storeNull (Some [readTool])
        (setSystemKV ''last_seen_tools'' ''Read'' emptyDb)
     = setSystemKV ''last_seen_tools'' ''Read'' emptyDb"
proof -
  let ?db = "dbWithTemplate ''Hi.\<newline>{{env_block}}'' False"
  let ?body = "requestWith [mainBlock, textBlock ''<env>X</env>''] (Some [readTool])"
  let ?blocks = "[mainBlock, textBlock ''<env>X</env>'']"
  let ?ic = "\<lparr>isEnabled = True,
              config = configFields \<lparr>targetPrompt = ''You are Claude Code, Anthropic's official CLI for Claude.'',
                 replacementPrompt = ''Hi.\<newline>{{env_block}}'', toolsEnabled = False\<rparr>\<rparr>"
  let ?kv = "setSystemKV ''last_seen_tools'' ''Read'' emptyDb"
  have cfg: "getInterceptorConfig ?db ''system_prompt'' = Some ?ic" by (simp add: example_defs)
  have en: "isEnabled ?ic" by simp
  have sys: "system ?body = Some (SystemBlocks ?blocks)" by (simp add: requestWith_def)
  have len: "2 \<le> length ?blocks" by simp
  have isMain: "includesStr (sm_text (?blocks ! 0)) mainAgentSignature"
    and notSub: "\<not> includesStr (sm_text (?blocks ! 0)) subAgentSignature"
    by (simp_all add: example_defs string_defs)
  have tpl: "config ?ic ''replacementPrompt'' = Some (CfgString ''Hi.\<newline>{{env_block}}'')"
    "''Hi.\<newline>{{env_block}}'' \<noteq> []"
    by (simp_all add: configFields_def)
  have off: "\<not> truthy (config ?ic ''toolsEnabled'')" by (simp add: configFields_def)
  have has: "tools ?body = Some [readTool]" by (simp add: requestWith_def)
  have stored: "getSystemKV ?kv ''last_seen_tools'' = Some (toolNames [readTool])"
    by (simp add: getSystemKV_def setSystemKV_def emptyDb_def toolNames_def readTool_def)
  have sched: "snd (applySystemPromptInterception Some id ?db (Some ?body))
     = [UpdateLastSeenTools None, UpdateLastSeenPrompt ''<env>X</env>'']"
    by (simp add: applySystemPromptInterception_def example_defs string_defs Let_def)
  have calls0: "setSystemKV_calls ?kv = [(''last_seen_tools'', Some ''Read'')]"
    by (simp add: setSystemKV_def emptyDb_def)
  note inst = removed_tools_written_every_time[of Some ?body ?body ?db ?ic ?blocks
      "''Hi.\<newline>{{env_block}}''" "[readTool]" ?kv toolNames id storeNull,
      OF refl cfg en sys len isMain notSub tpl off has stored]
  from inst calls0
  have first: "setSystemKV_calls (runDeferred toolNames storeNull (UpdateLastSeenTools None) ?kv)
                 = [(''last_seen_tools'', Some ''Read''), (''last_seen_tools'', None)]"
    by (simp add: sched)
  have all_calls: "setSystemKV_calls (runAllDeferred toolNames storeNull
            [UpdateLastSeenTools None, UpdateLastSeenPrompt ''<env>X</env>''] ?kv)
     = [(''last_seen_tools'', Some ''Read''), (''last_seen_tools'', None),
        (''last_seen_system_prompt'', Some ''<env>X</env>'')]"
    using first
    by (simp add: updateLastSeenTools_def updateLastSeenPrompt_def setSystemKV_undefined_def
          setSystemKV_def getSystemKV_def storeNull_def emptyDb_def)
  have reads: "getSystemKV (runAllDeferred toolNames storeNull
            [UpdateLastSeenTools None, UpdateLastSeenPrompt ''<env>X</env>''] ?kv) ''last_seen_tools''
     = None"
    by (simp add: updateLastSeenTools_def updateLastSeenPrompt_def setSystemKV_undefined_def
          setSystemKV_def getSystemKV_def storeNull_def emptyDb_def)
  have kept: "updateLastSeenTools toolNames storeNull (Some [readTool]) ?kv = ?kv"
    using stored by (simp add: updateLastSeenTools_def Let_def)
  from stored sched all_calls reads kept show ?thesis by simp
qed

section \<open>Agent interceptor\<close>

lemmas agent_defs =
  interceptAndModifyRequest_def interceptAndModifyRequest_try_def resultAfterInterception_def
  applySystemPromptInterception_agent_def extractSystemPrompt_def pushRootSystem_def
  pushSystemMessage_def pushUserMessage_def preferredModelOf_def trim_def isWhiteSpace_def
  collaborators_def agent42_def agent42Request_def preferFor_def

subsection \<open>The combined system prompt\<close>

text \<open>\<open>find\<close> returns the first element that satisfies the predicate.\<close>

lemma find_take_filter:
  "find P xs = (case take 1 (filter P xs) of [] \<Rightarrow> None | x # _ \<Rightarrow> Some x)"
  by (induction xs) auto

lemma pushRootSystem_eq: "pushRootSystem sys acc = acc @ rootSystemTexts sys"
  by (simp add: pushRootSystem_def rootSystemTexts_def Let_def split: option.splits system_field.splits)

lemma pushSystemMessage_eq:
  "pushSystemMessage msgs acc = acc @ concat (map messageTexts (take 1 (filter (hasRole ''system'') msgs)))"
proof -
  have P: "(\<lambda>msg. role msg = Some ''system'') = hasRole ''system''" by (simp add: hasRole_def fun_eq_iff)
  show ?thesis
    unfolding pushSystemMessage_def P find_take_filter[of "hasRole ''system''" msgs]
    by (cases "filter (hasRole ''system'') msgs")
       (simp_all add: messageTexts_def Let_def split: option.splits content_field.splits)
qed

lemma hasClaudeMdMarkers_nonempty: "hasClaudeMdMarkers t \<Longrightarrow> t \<noteq> []"
  by (auto simp: hasClaudeMdMarkers_def includesStr_def)

lemma pushUserMessage_eq:
  "pushUserMessage msgs acc =
     acc @ filter hasClaudeMdMarkers (concat (map messageTexts (take 1 (filter (hasRole ''user'') msgs))))"
proof -
  have P: "(\<lambda>msg. role msg = Some ''user'') = hasRole ''user''" by (simp add: hasRole_def fun_eq_iff)
  show ?thesis
    unfolding pushUserMessage_def P find_take_filter[of "hasRole ''user''" msgs]
    by (cases "filter (hasRole ''user'') msgs")
       (auto simp add: messageTexts_def Let_def  dest: hasClaudeMdMarkers_nonempty split: option.splits content_field.splits)
qed

text \<open>
  Claim C6, as stated, at a request with a root system string and two user messages, the
  second of which holds both markers: the claim includes the text of every user message
  with the markers, the code looks at the first user message only and returns the root
  system string alone.
\<close>

theorem every_message_counterexample:
  "extractSystemPrompt twoUserMessages = Some ''Be brief.''
   \<and> join ''\<newline>\<newline>'' (spec_systemPromptSources twoUserMessages)
       = ''Be brief.\<newline>\<newline>Contents of /repo/CLAUDE.md (project instructions)''"
  by (simp add: extractSystemPrompt_def spec_systemPromptSources_def twoUserMessages_def userMessage_def
        pushRootSystem_def pushSystemMessage_def pushUserMessage_def rootSystemTexts_def messageTexts_def
        hasRole_def hasClaudeMdMarkers_def includesStr_def Let_def)

text \<open>
  Claim C6, amended to the first message of each role. The combined system prompt is the
  concatenation, in order and separated by a blank line, of: the root-level system field
  (the string itself when it is not empty, or the text of its blocks of type \<open>text\<close> with
  a non-empty text, joined by newlines, when that is not empty); the text of the first
  message whose role is \<open>system\<close> (its string content, or the joined text of its content
  blocks when not empty); and the text of the first message whose role is \<open>user\<close>,
  provided that text contains both \<open>Contents of\<close> and \<open>CLAUDE.md\<close>. When there is no
  such source the function returns \<open>null\<close>.
\<close>

theorem extractSystemPrompt_sources:
  "extractSystemPrompt requestBody =
     (if first_systemPromptSources requestBody = [] then None
      else Some (join ''\<newline>\<newline>'' (first_systemPromptSources requestBody)))"
  by (simp add: extractSystemPrompt_def first_systemPromptSources_def Let_def
        pushRootSystem_eq pushSystemMessage_eq pushUserMessage_eq split: option.splits)

text \<open>
  A request with a system array, a system message, a first user message whose text
  blocks hold the markers, and a second user message that is not looked at.
\<close>

theorem extractSystemPrompt_sources_witness:
  "extractSystemPrompt claudeMdRequest
     = Some ''Be brief.\<newline>Answer in English.\<newline>\<newline>Stay on topic.\<newline>\<newline>Contents of /repo/CLAUDE.md:\<newline>Use tabs.''
   \<and> first_systemPromptSources claudeMdRequest
     = [''Be brief.\<newline>Answer in English.'', ''Stay on topic.'',
        ''Contents of /repo/CLAUDE.md:\<newline>Use tabs.'']"
proof -
  have sources: "first_systemPromptSources claudeMdRequest
     = [''Be brief.\<newline>Answer in English.'', ''Stay on topic.'',
        ''Contents of /repo/CLAUDE.md:\<newline>Use tabs.'']"
    by (simp add: first_systemPromptSources_def claudeMdRequest_def textBlock_def
          rootSystemTexts_def messageTexts_def systemBlocksText_def contentBlocksText_def
          isTextContent_def hasRole_def hasClaudeMdMarkers_def includesStr_def)
  show ?thesis
    unfolding extractSystemPrompt_sources [of claudeMdRequest] sources by simp
qed

subsection \<open>Agent detection and the preferred model\<close>

text \<open>
  \<open>includes\<close> is the sublist test, and a trimmed signature occurs wherever the stored
  signature does: a prompt that contains an agent's stored signature passes the test of
  the detection.
\<close>

lemma includesStr_sublist: "includesStr s t = sublist t s"
proof (induction s)
  case Nil
  show ?case by (simp add: includesStr_def)
next
  case (Cons c s)
  then show ?case by (auto simp: includesStr_def sublist_Cons_right)
qed

lemma trim_sublist: "sublist (trim t) t"
proof -
  let ?ys = "dropWhile isWhiteSpace t"
  have "rev (dropWhile isWhiteSpace (rev ?ys)) @ rev (takeWhile isWhiteSpace (rev ?ys))
          = rev (takeWhile isWhiteSpace (rev ?ys) @ dropWhile isWhiteSpace (rev ?ys))"
    by (simp only: rev_append)
  also have "\<dots> = rev (rev ?ys)" by (simp only: takeWhile_dropWhile_id)
  finally have "?ys = trim t @ rev (takeWhile isWhiteSpace (rev ?ys))"
    by (simp add: trim_def)
  moreover have "t = takeWhile isWhiteSpace t @ ?ys" by simp
  ultimately have "t = takeWhile isWhiteSpace t @ trim t @ rev (takeWhile isWhiteSpace (rev ?ys))"
    by metis
  then show ?thesis unfolding sublist_def by blast
qed

lemma stored_signature_detected:
  "includesStr prompt (systemPrompt agent) \<Longrightarrow> includesStr prompt (trim (systemPrompt agent))"
  using trim_sublist[of "systemPrompt agent"] sublist_order.order_trans
  by (auto simp: includesStr_sublist)






subsection \<open>Failure of the stage\<close>

text \<open>
  The exceptions that leave the \<open>try\<close> block: the body does not parse, a workspace
  registration throws, the registry lookup throws, or the preference lookup throws.
\<close>

lemma invalid_json_raises:
  "decode c buf = None \<Longrightarrow> fst (interceptAndModifyRequest_try c db reg buf) = Inl ''SyntaxError''"
  by (simp add: interceptAndModifyRequest_try_def)

lemma try_raises_cases:
  assumes "fst (interceptAndModifyRequest_try c db reg buf) = Inl err"
  shows "decode c buf = None
       \<or> (\<exists>body prompt. decode c buf = Some body \<and> extractSystemPrompt body = Some prompt \<and> prompt \<noteq> []
            \<and> (fst (registerWorkspaces c (extractAgentDirectories c prompt) reg) = Some err
               \<or> (\<exists>reg1. registerWorkspaces c (extractAgentDirectories c prompt) reg = (None, reg1)
                     \<and> (fst (getAgents c reg1) = Inl err
                        \<or> (\<exists>agents agent. fst (getAgents c reg1) = Inr agents
                              \<and> find (\<lambda>agent. includesStr prompt (trim (systemPrompt agent))) agents = Some agent
                              \<and> getAgentPreference c (agentId agent) = Inl err)))))"
  using assms
  unfolding interceptAndModifyRequest_try_def
  by (auto simp: Let_def split: option.splits if_splits prod.splits sum.splits)

text \<open>
  Claim C8. Whenever the \<open>try\<close> block of the agent interceptor raises on a buffer,
  \<open>interceptAndModifyRequest\<close> returns a result, namely the incoming buffer with
  \<open>agentUsed\<close>, \<open>originalModel\<close> and \<open>appliedModel\<close> all \<open>null\<close>. The function returns a
  result on every input: its value is a result record, never an exception.
\<close>

theorem intercept_exception_caught:
  assumes "fst (interceptAndModifyRequest_try c db reg buf) = Inl err"
  shows "fst (interceptAndModifyRequest c db reg (Some buf)) =
           \<lparr>modifiedBody = Some buf, agentUsed = None, originalModel = None, appliedModel = None,
            systemPromptModified = None, toolsRemoved = None\<rparr>"
  using assms
  by (auto simp: interceptAndModifyRequest_def split: prod.splits sum.splits)

text \<open>
  A buffer that is not valid JSON, and a valid request while the agent registry is
  unavailable: both come back unmodified with \<open>null\<close> metadata.
\<close>

theorem intercept_exception_caught_witness:
  "fst (interceptAndModifyRequest_try
          (collaborators (parseOnly ''{}'' agent42Request) (renderFixed ''{}'') [agent42] noPreferences)
          emptyDb () ''{ not json'') = Inl ''SyntaxError''
   \<and> fst (interceptAndModifyRequest
          (collaborators (parseOnly ''{}'' agent42Request) (renderFixed ''{}'') [agent42] noPreferences)
          emptyDb () (Some ''{ not json''))
      = \<lparr>modifiedBody = Some ''{ not json'', agentUsed = None, originalModel = None, appliedModel = None,
            systemPromptModified = None, toolsRemoved = None\<rparr>
   \<and> fst (interceptAndModifyRequest_try (collaboratorsRegistryDown Some id) emptyDb () agent42Request)
      = Inl ''registry unavailable''
   \<and> fst (interceptAndModifyRequest (collaboratorsRegistryDown Some id) emptyDb () (Some agent42Request))
      = \<lparr>modifiedBody = Some agent42Request, agentUsed = None, originalModel = None, appliedModel = None,
            systemPromptModified = None, toolsRemoved = None\<rparr>"
proof -
  let ?c = "collaborators (parseOnly ''{}'' agent42Request) (renderFixed ''{}'') [agent42] noPreferences"
  have bad: "fst (interceptAndModifyRequest_try ?c emptyDb () ''{ not json'') = Inl ''SyntaxError''"
    by (simp add: interceptAndModifyRequest_try_def collaborators_def parseOnly_def)
  have down: "fst (interceptAndModifyRequest_try (collaboratorsRegistryDown Some id) emptyDb () agent42Request)
      = Inl ''registry unavailable''"
    by (simp add: agent_defs collaboratorsRegistryDown_def Let_def)
  from intercept_exception_caught[OF bad] intercept_exception_caught[OF down] bad down
  show ?thesis by simp
qed

end
